theory Spec2Isabelle
  imports Complex_Main "HOL-Library.Word"
begin

section \<open>Python strings\<close>

text \<open>
  A Python \<open>str\<close> is modelled as a \<open>string\<close>: a list of characters, each one
  of the 256 code points of Latin-1. The built-in string methods the program calls are
  written out below with the behaviour CPython gives them on such text. Of these methods
  only \<open>str.title\<close> can leave Latin-1 (the title case of \<open>0xFF\<close> and of
  \<open>0xB5\<close> lies beyond it), so it is not defined here but taken from the environment.
\<close>

definition ascii_lowercase :: string where
  "ascii_lowercase = ''abcdefghijklmnopqrstuvwxyz''"

definition ascii_uppercase :: string where
  "ascii_uppercase = ''ABCDEFGHIJKLMNOPQRSTUVWXYZ''"

definition digits :: string where
  "digits = ''0123456789''"

definition is_lower :: "char \<Rightarrow> bool" where
  "is_lower c = (c \<in> set ascii_lowercase)"

definition is_upper :: "char \<Rightarrow> bool" where
  "is_upper c = (c \<in> set ascii_uppercase)"

text \<open>The class \<open>[a-zA-Z]\<close> of a pattern.\<close>

definition is_alpha :: "char \<Rightarrow> bool" where
  "is_alpha c = (is_lower c \<or> is_upper c)"

definition is_digit :: "char \<Rightarrow> bool" where
  "is_digit c = (c \<in> set digits)"

text \<open>
  The capital and small letters of Latin-1 beyond ASCII, in the order of their code points:
  \<open>0xC0\<close> to \<open>0xDE\<close> without the multiplication sign \<open>0xD7\<close>, and
  \<open>0xE0\<close> to \<open>0xFE\<close> without the division sign \<open>0xF7\<close>.
\<close>

definition latin1_uppercase :: string where
  "latin1_uppercase =
     [CHR 0xC0, CHR 0xC1, CHR 0xC2, CHR 0xC3, CHR 0xC4, CHR 0xC5, CHR 0xC6, CHR 0xC7,
      CHR 0xC8, CHR 0xC9, CHR 0xCA, CHR 0xCB, CHR 0xCC, CHR 0xCD, CHR 0xCE, CHR 0xCF,
      CHR 0xD0, CHR 0xD1, CHR 0xD2, CHR 0xD3, CHR 0xD4, CHR 0xD5, CHR 0xD6,
      CHR 0xD8, CHR 0xD9, CHR 0xDA, CHR 0xDB, CHR 0xDC, CHR 0xDD, CHR 0xDE]"

definition latin1_lowercase :: string where
  "latin1_lowercase =
     [CHR 0xE0, CHR 0xE1, CHR 0xE2, CHR 0xE3, CHR 0xE4, CHR 0xE5, CHR 0xE6, CHR 0xE7,
      CHR 0xE8, CHR 0xE9, CHR 0xEA, CHR 0xEB, CHR 0xEC, CHR 0xED, CHR 0xEE, CHR 0xEF,
      CHR 0xF0, CHR 0xF1, CHR 0xF2, CHR 0xF3, CHR 0xF4, CHR 0xF5, CHR 0xF6,
      CHR 0xF8, CHR 0xF9, CHR 0xFA, CHR 0xFB, CHR 0xFC, CHR 0xFD, CHR 0xFE]"

text \<open>
  The other characters of Latin-1 for which \<open>str.isalnum\<close> holds: the ordinal
  indicators \<open>0xAA\<close> and \<open>0xBA\<close>, the micro sign \<open>0xB5\<close>, the sharp s
  \<open>0xDF\<close>, the y with diaeresis \<open>0xFF\<close>, the superscript digits \<open>0xB2\<close>,
  \<open>0xB3\<close>, \<open>0xB9\<close> and the fractions \<open>0xBC\<close> to \<open>0xBE\<close>.
\<close>

definition latin1_other_alnum :: string where
  "latin1_other_alnum =
     [CHR 0xAA, CHR 0xB2, CHR 0xB3, CHR 0xB5, CHR 0xB9, CHR 0xBA, CHR 0xBC, CHR 0xBD,
      CHR 0xBE, CHR 0xDF, CHR 0xFF]"

text \<open>The class \<open>\w\<close> of the \<open>re\<close> module on a \<open>str\<close> pattern: every character
  for which \<open>str.isalnum\<close> holds, and the underscore.\<close>

definition is_word :: "char \<Rightarrow> bool" where
  "is_word c =
     (is_alpha c \<or> is_digit c \<or> c = CHR ''_''
      \<or> c \<in> set latin1_uppercase \<or> c \<in> set latin1_lowercase
      \<or> c \<in> set latin1_other_alnum)"

text \<open>\<open>str.isspace\<close>: tab, line feed, vertical tab, form feed, carriage return, the
  four separators 0x1C..0x1F, the space, NEL and the no-break space.\<close>

definition is_space :: "char \<Rightarrow> bool" where
  "is_space c = (c \<in> set [CHR 0x09, CHR 0x0A, CHR 0x0B, CHR 0x0C, CHR 0x0D,
                            CHR 0x1C, CHR 0x1D, CHR 0x1E, CHR 0x1F, CHR 0x20,
                            CHR 0x85, CHR 0xA0])"

text \<open>The lower case of a character: every capital letter of Latin-1 has its small
  letter in Latin-1, and no other character changes.\<close>

definition to_lower :: "char \<Rightarrow> char" where
  "to_lower c =
     (case map_of (zip (ascii_uppercase @ latin1_uppercase)
                       (ascii_lowercase @ latin1_lowercase)) c of
        Some l \<Rightarrow> l | None \<Rightarrow> c)"

definition to_upper :: "char \<Rightarrow> char" where
  "to_upper c = (case map_of (zip ascii_lowercase ascii_uppercase) c of
                   Some u \<Rightarrow> u | None \<Rightarrow> c)"

text \<open>\<open>s.lower()\<close>\<close>

definition py_lower :: "string \<Rightarrow> string" where
  "py_lower s = map to_lower s"

text \<open>\<open>s.title()\<close> on ASCII text only: a letter that follows a letter is lowered, any
  other letter is raised; the flag is CPython's \<open>previous_is_cased\<close>. It serves as the
  \<open>str.title\<close> of the sample environments, which apply it to ASCII topics.\<close>

fun title_from :: "bool \<Rightarrow> string \<Rightarrow> string" where
  "title_from prev [] = []"
| "title_from prev (c # cs) =
     (if is_lower c then (if prev then c else to_upper c) # title_from True cs
      else if is_upper c then (if prev then to_lower c else c) # title_from True cs
      else c # title_from False cs)"

definition ascii_title :: "string \<Rightarrow> string" where
  "ascii_title s = title_from False s"

text \<open>The maximal runs of characters satisfying \<open>p\<close>, left to right; \<open>cur\<close> is the
  run being read.\<close>

fun runs :: "(char \<Rightarrow> bool) \<Rightarrow> string \<Rightarrow> string \<Rightarrow> string list" where
  "runs p cur [] = (if cur = [] then [] else [cur])"
| "runs p cur (c # cs) =
     (if p c then runs p (cur @ [c]) cs
      else if cur = [] then runs p [] cs
      else cur # runs p [] cs)"

text \<open>\<open>s.split()\<close> with no argument: the maximal runs of non-space characters.\<close>

definition py_split :: "string \<Rightarrow> string list" where
  "py_split s = runs (\<lambda>c. \<not> is_space c) [] s"

text \<open>\<open>s.strip()\<close>\<close>

definition py_strip :: "string \<Rightarrow> string" where
  "py_strip s = rev (dropWhile is_space (rev (dropWhile is_space s)))"

definition startswith :: "string \<Rightarrow> string \<Rightarrow> bool" where
  "startswith s p = (take (length p) s = p)"

definition endswith :: "string \<Rightarrow> string \<Rightarrow> bool" where
  "endswith s p = (length p \<le> length s \<and> drop (length s - length p) s = p)"

text \<open>\<open>sep.join(xs)\<close>\<close>

fun join :: "string \<Rightarrow> string list \<Rightarrow> string" where
  "join sep [] = []"
| "join sep [x] = x"
| "join sep (x # y # ys) = x @ sep @ join sep (y # ys)"

text \<open>\<open>s.count(sub)\<close>: the occurrences of \<open>sub\<close> found scanning left to right and
  resuming after each one (they do not overlap); the empty \<open>sub\<close> occurs
  \<open>len(s) + 1\<close> times.\<close>

function count_from :: "string \<Rightarrow> string \<Rightarrow> nat" where
  "count_from sub s =
     (if sub = [] \<or> length s < length sub then 0
      else if take (length sub) s = sub then Suc (count_from sub (drop (length sub) s))
      else count_from sub (tl s))"
  by pat_completeness auto
termination
proof (relation "measure (\<lambda>(sub, s). length s)")
  fix sub s :: string
  assume "\<not> (sub = [] \<or> length s < length sub)"
  then have "0 < length sub" "0 < length s" by auto
  then show "((sub, drop (length sub) s), (sub, s)) \<in> measure (\<lambda>(sub, s). length s)"
    and "((sub, tl s), (sub, s)) \<in> measure (\<lambda>(sub, s). length s)"
    by auto
qed simp

declare count_from.simps [simp del]

definition py_count :: "string \<Rightarrow> string \<Rightarrow> nat" where
  "py_count s sub = (if sub = [] then length s + 1 else count_from sub s)"

text \<open>\<open>str(n)\<close> for an integer\<close>

fun str_nat :: "nat \<Rightarrow> string" where
  "str_nat n = (if n < 10 then [digits ! n] else str_nat (n div 10) @ [digits ! (n mod 10)])"

declare str_nat.simps [simp del]

definition str_int :: "int \<Rightarrow> string" where
  "str_int i = (if i < 0 then CHR ''-'' # str_nat (nat (- i)) else str_nat (nat i))"

section \<open>models.py\<close>

datatype JobStatus = PENDING | RUNNING | COMPLETED | FAILED

text \<open>\<open>status.value\<close> and the constructor \<open>JobStatus(text)\<close>, which raises on any other
  text.\<close>

fun JobStatus_value :: "JobStatus \<Rightarrow> string" where
  "JobStatus_value PENDING = ''pending''"
| "JobStatus_value RUNNING = ''running''"
| "JobStatus_value COMPLETED = ''completed''"
| "JobStatus_value FAILED = ''failed''"

definition JobStatus_of_value :: "string \<Rightarrow> JobStatus option" where
  "JobStatus_of_value s =
     (if s = ''pending'' then Some PENDING
      else if s = ''running'' then Some RUNNING
      else if s = ''completed'' then Some COMPLETED
      else if s = ''failed'' then Some FAILED
      else None)"

record SERPResult =
  rank :: int
  url :: string
  title :: string
  snippet :: string

record SERPData =
  query :: string
  results :: "SERPResult list"

text \<open>An outline section is the dictionary \<open>{h2: str, h3: List[str]}\<close> that the field
  description of \<open>ArticleOutline.sections\<close> names and \<open>generate_outline\<close> builds.\<close>

record outline_section =
  h2 :: string
  h3 :: "string list"

record ArticleOutline =
  h1 :: string
  sections :: "outline_section list"

section \<open>serp\_analyzer.py\<close>

text \<open>\<open>_generate_mock_serp\<close>: one result for each \<open>i\<close> of \<open>range(10)\<close>.\<close>

definition mock_result :: "string \<Rightarrow> nat \<Rightarrow> SERPResult" where
  "mock_result q i =
     \<lparr> rank = int i + 1,
       url = ''https://example'' @ str_nat i @ ''.com/article'',
       title = ''Top '' @ str_nat (10 + i) @ '' '' @ q @ '' - Complete Guide 2025'',
       snippet = ''Discover the best practices for '' @ q
                 @ ''. Learn about tools, strategies, and tips...'' \<rparr>"

definition generate_mock_serp :: "string \<Rightarrow> SERPResult list" where
  "generate_mock_serp q = map (mock_result q) [0..<10]"

definition get_serp_data :: "string \<Rightarrow> SERPData" where
  "get_serp_data q = \<lparr> query = q, results = generate_mock_serp q \<rparr>"

text \<open>
  \<open>re.findall(r'\b[a-zA-Z]{4,}\b', text)\<close>, as the matching engine runs it.

  \<open>\b\<close> holds at a position when exactly one of the characters before and after it
  is a word character; what lies beyond either end of the text counts as no word character.
  \<open>prev_word\<close> tells whether the character before the position is one.
\<close>

definition boundary :: "bool \<Rightarrow> string \<Rightarrow> bool" where
  "boundary prev_word s = (prev_word \<noteq> (case s of [] \<Rightarrow> False | c # _ \<Rightarrow> is_word c))"

text \<open>
  An attempt at one position: \<open>\b\<close>, then \<open>[a-zA-Z]{4,}\<close>, which is greedy and
  takes all the letters there are before giving them back one at a time, down to four,
  until \<open>\b\<close> holds after the letters kept. The result is the length of the match.
\<close>

definition match_here :: "bool \<Rightarrow> string \<Rightarrow> nat option" where
  "match_here prev_word s =
     (if boundary prev_word s
      then find (\<lambda>k. boundary (is_word (s ! (k - 1))) (drop k s))
             (rev [4..<Suc (length (takeWhile is_alpha s))])
      else None)"

text \<open>
  The scan: after a match it resumes behind the match, and where there is none it moves on
  by one character.
\<close>

function findall_from :: "bool \<Rightarrow> string \<Rightarrow> string list" where
  "findall_from prev_word s =
     (case match_here prev_word s of
        Some k \<Rightarrow> take k s # findall_from (is_word (s ! (k - 1))) (drop k s)
      | None \<Rightarrow> (case s of [] \<Rightarrow> [] | c # cs \<Rightarrow> findall_from (is_word c) cs))"
  by pat_completeness auto
termination
proof (relation "measure (\<lambda>(prev_word, s). length s)")
  fix prev_word :: bool and s :: string and k :: nat
  assume "match_here prev_word s = Some k"
  then have "find (\<lambda>k. boundary (is_word (s ! (k - 1))) (drop k s))
               (rev [4..<Suc (length (takeWhile is_alpha s))]) = Some k"
    by (simp add: match_here_def split: if_splits)
  then obtain i where "i < length (rev [4..<Suc (length (takeWhile is_alpha s))])"
      and "k = rev [4..<Suc (length (takeWhile is_alpha s))] ! i"
    unfolding find_Some_iff by blast
  then have "k \<in> set (rev [4..<Suc (length (takeWhile is_alpha s))])"
    using nth_mem by blast
  then have "4 \<le> k" and "k \<le> length (takeWhile is_alpha s)"
    by auto
  moreover have "length (takeWhile is_alpha s) \<le> length s"
    by (rule length_takeWhile_le)
  ultimately show "((is_word (s ! (k - 1)), drop k s), (prev_word, s))
                     \<in> measure (\<lambda>(prev_word, s). length s)"
    by simp
qed simp_all

declare findall_from.simps [simp del]

definition findall_words :: "string \<Rightarrow> string list" where
  "findall_words text = findall_from False text"

definition stop_words :: "string list" where
  "stop_words = [''this'', ''that'', ''with'', ''from'', ''have'', ''they'', ''will'',
                 ''your'', ''about'', ''their'', ''which'', ''these'', ''best'', ''guide'']"

text \<open>\<open>Counter(words)\<close>: a dictionary in insertion order; counting a word again raises
  its count where it stands.\<close>

fun counter_add :: "string \<Rightarrow> (string \<times> nat) list \<Rightarrow> (string \<times> nat) list" where
  "counter_add w [] = [(w, 1)]"
| "counter_add w ((k, c) # kvs) =
     (if k = w then (k, Suc c) # kvs else (k, c) # counter_add w kvs)"

definition Counter :: "string list \<Rightarrow> (string \<times> nat) list" where
  "Counter ws = fold counter_add ws []"

text \<open>\<open>most_common(n)\<close>: the items sorted by descending count, items of equal count in
  their dictionary order (the sort is stable), cut to \<open>n\<close>.\<close>

definition most_common :: "nat \<Rightarrow> (string \<times> nat) list \<Rightarrow> (string \<times> nat) list" where
  "most_common n cnt = take n (sort_key (\<lambda>kc. - int (snd kc)) cnt)"

definition all_text :: "SERPData \<Rightarrow> string" where
  "all_text d = join '' '' (map (\<lambda>r. title r @ '' '' @ snippet r) (results d))"

definition extract_themes :: "SERPData \<Rightarrow> (string \<times> nat) list" where
  "extract_themes d =
     (let words = findall_words (py_lower (all_text d));
          meaningful_words = filter (\<lambda>w. w \<notin> set stop_words) words;
          word_freq = Counter meaningful_words
      in most_common 20 word_freq)"

text \<open>\<open>generate_outline\<close>; \<open>str_title\<close> is \<open>str.title\<close>.\<close>

definition generate_outline ::
    "(string \<Rightarrow> string) \<Rightarrow> SERPData \<Rightarrow> (string \<times> nat) list \<Rightarrow> ArticleOutline" where
  "generate_outline str_title d themes =
     \<lparr> h1 = ''The Complete Guide to '' @ str_title (query d),
       sections =
         [ \<lparr> h2 = ''What is '' @ str_title (query d) @ ''?'',
             h3 = [''Definition and Overview'', ''Why It Matters'', ''Key Benefits''] \<rparr>,
           \<lparr> h2 = ''Top Strategies for '' @ str_title (query d),
             h3 = [''Strategy #1: Foundation'', ''Strategy #2: Implementation'',
                   ''Strategy #3: Optimization''] \<rparr>,
           \<lparr> h2 = ''Best Practices and Tips'',
             h3 = [''Common Mistakes to Avoid'', ''Expert Recommendations'',
                   ''Tools and Resources''] \<rparr>,
           \<lparr> h2 = ''Getting Started with '' @ str_title (query d),
             h3 = [''Step-by-Step Guide'', ''Measuring Success'', ''Next Steps''] \<rparr> ] \<rparr>"

definition extract_questions :: "SERPData \<Rightarrow> string list" where
  "extract_questions d =
     [ ''What is '' @ query d @ ''?'',
       ''How do I get started with '' @ query d @ ''?'',
       ''What are the benefits of '' @ query d @ ''?'',
       ''What tools are best for '' @ query d @ ''?'' ]"

subsection \<open>extractThemes as the specification words it\<close>

text \<open>
  The specification's reading of the tokens: the alphabetic runs of the text that have at
  least four letters, whatever stands next to them.
\<close>

definition alpha_runs :: "string \<Rightarrow> string list" where
  "alpha_runs text = filter (\<lambda>w. 4 \<le> length w) (runs is_alpha [] text)"

text \<open>
  The reading that the code has: the text is cut into its maximal runs of word characters,
  and a run is a token when it has at least four characters and all of them are letters of
  \<open>[a-zA-Z]\<close>.
\<close>

definition word_tokens :: "string \<Rightarrow> string list" where
  "word_tokens text =
     filter (\<lambda>w. 4 \<le> length w \<and> list_all is_alpha w) (runs is_word [] text)"

text \<open>The terms in the order they are first met, each with the number of times it occurs,
  then the top \<open>n\<close> by descending frequency, ties in first-encountered order.\<close>

definition first_occurrences :: "string list \<Rightarrow> string list" where
  "first_occurrences ws = rev (remdups (rev ws))"

definition term_frequencies :: "string list \<Rightarrow> (string \<times> nat) list" where
  "term_frequencies ws = map (\<lambda>w. (w, count_list ws w)) (first_occurrences ws)"

definition top_terms :: "nat \<Rightarrow> string list \<Rightarrow> (string \<times> nat) list" where
  "top_terms n ws = take n (sort_key (\<lambda>kc. - int (snd kc)) (term_frequencies ws))"

definition extractThemes_spec :: "SERPData \<Rightarrow> (string \<times> nat) list" where
  "extractThemes_spec d =
     top_terms 20 (filter (\<lambda>w. w \<notin> set stop_words) (alpha_runs (py_lower (all_text d))))"

definition extractThemes_words :: "SERPData \<Rightarrow> (string \<times> nat) list" where
  "extractThemes_words d =
     top_terms 20 (filter (\<lambda>w. w \<notin> set stop_words) (word_tokens (py_lower (all_text d))))"

definition themes_example :: SERPData where
  "themes_example =
     \<lparr> query = ''python3 tips'',
       results = [\<lparr> rank = 1, url = ''https://example0.com/article'',
                    title = ''python3 tips'', snippet = ''python3 tools'' \<rparr>] \<rparr>"

section \<open>Python values and exceptions\<close>

text \<open>
  What \<open>json.loads\<close> returns, and what a pydantic model's \<open>.dict()\<close> builds: a
  dictionary is a list of key-value pairs in insertion order, read with \<open>map_of\<close>.
  A Python \<open>float\<close> is a double; it is modelled by the rational number that the
  double is, and the operations on floats round as the machine does (see below).
\<close>

datatype json =
    JNull
  | JBool bool
  | JInt int
  | JFloat rat
  | JString string
  | JArray "json list"
  | JObject "(string \<times> json) list"

text \<open>
  The exceptions of the pipeline. \<open>KeyError\<close> carries the missing key, \<open>ServiceError\<close>
  is whatever the generative service call raises and carries its \<open>str()\<close>; the others carry
  their message. The wording of the interpreter's and pydantic's messages is that of
  CPython 3.11 and pydantic 1.10, shortened to one line.
\<close>

datatype py_error =
    KeyError string
  | TypeError string
  | AttributeError string
  | ValidationError string
  | ValueError string
  | ZeroDivisionError
  | OverflowError string
  | ServiceError string

text \<open>\<open>str(e)\<close>\<close>

fun str_error :: "py_error \<Rightarrow> string" where
  "str_error (KeyError k) = [CHR 0x27] @ k @ [CHR 0x27]"
| "str_error (TypeError m) = m"
| "str_error (AttributeError m) = m"
| "str_error (ValidationError m) = m"
| "str_error (ValueError m) = m"
| "str_error ZeroDivisionError = ''division by zero''"
| "str_error (OverflowError m) = m"
| "str_error (ServiceError m) = m"

text \<open>Sequencing of steps that may raise: the first exception ends the computation.\<close>

definition and_then :: "py_error + 'a \<Rightarrow> ('a \<Rightarrow> py_error + 'b) \<Rightarrow> py_error + 'b" where
  "and_then r f = (case r of Inl e \<Rightarrow> Inl e | Inr v \<Rightarrow> f v)"

text \<open>A list comprehension \<open>[f(x) for x in xs]\<close> whose \<open>f\<close> may raise.\<close>

fun map_raising :: "('a \<Rightarrow> py_error + 'b) \<Rightarrow> 'a list \<Rightarrow> py_error + 'b list" where
  "map_raising f [] = Inr []"
| "map_raising f (x # xs) =
     and_then (f x) (\<lambda>y. and_then (map_raising f xs) (\<lambda>ys. Inr (y # ys)))"

fun type_name :: "json \<Rightarrow> string" where
  "type_name JNull = ''NoneType''"
| "type_name (JBool b) = ''bool''"
| "type_name (JInt i) = ''int''"
| "type_name (JFloat r) = ''float''"
| "type_name (JString s) = ''str''"
| "type_name (JArray xs) = ''list''"
| "type_name (JObject kvs) = ''dict''"

text \<open>\<open>d[key]\<close> with a string key\<close>

fun subscript :: "json \<Rightarrow> string \<Rightarrow> py_error + json" where
  "subscript (JObject kvs) k =
     (case map_of kvs k of Some v \<Rightarrow> Inr v | None \<Rightarrow> Inl (KeyError k))"
| "subscript (JArray xs) k = Inl (TypeError ''list indices must be integers or slices, not str'')"
| "subscript (JString s) k = Inl (TypeError ''string indices must be integers'')"
| "subscript v k = Inl (TypeError ([CHR 0x27] @ type_name v @ [CHR 0x27] @ '' object is not subscriptable''))"

text \<open>\<open>d.get(key)\<close>\<close>

fun dict_get :: "json \<Rightarrow> string \<Rightarrow> py_error + json" where
  "dict_get (JObject kvs) k = Inr (case map_of kvs k of Some v \<Rightarrow> v | None \<Rightarrow> JNull)"
| "dict_get v k = Inl (AttributeError ([CHR 0x27] @ type_name v @ [CHR 0x27] @ '' object has no attribute '' @ [CHR 0x27] @ ''get'' @ [CHR 0x27]))"

text \<open>The receiver of a \<open>str\<close> method (\<open>v.split()\<close>, \<open>v.lower()\<close>): only a string has
  it.\<close>

fun str_receiver :: "json \<Rightarrow> string \<Rightarrow> py_error + string" where
  "str_receiver (JString s) method = Inr s"
| "str_receiver v method = Inl (AttributeError ([CHR 0x27] @ type_name v @ [CHR 0x27] @ '' object has no attribute '' @ [CHR 0x27] @ method @ [CHR 0x27]))"



text \<open>\<open>v[:n]\<close>\<close>

fun slice_to :: "json \<Rightarrow> nat \<Rightarrow> py_error + json" where
  "slice_to (JString s) n = Inr (JString (take n s))"
| "slice_to (JArray xs) n = Inr (JArray (take n xs))"
| "slice_to (JObject kvs) n = Inl (TypeError (''unhashable type: '' @ [CHR 0x27] @ ''slice'' @ [CHR 0x27]))"
| "slice_to v n = Inl (TypeError ([CHR 0x27] @ type_name v @ [CHR 0x27] @ '' object is not subscriptable''))"

text \<open>\<open>for x in v\<close>: a list yields its items, a dictionary its keys, a string its
  characters.\<close>

fun iterate :: "json \<Rightarrow> py_error + json list" where
  "iterate (JArray xs) = Inr xs"
| "iterate (JObject kvs) = Inr (map (\<lambda>kv. JString (fst kv)) kvs)"
| "iterate (JString s) = Inr (map (\<lambda>c. JString [c]) s)"
| "iterate v = Inl (TypeError ([CHR 0x27] @ type_name v @ [CHR 0x27] @ '' object is not iterable''))"

subsection \<open>Floats\<close>

text \<open>
  A double has a significand of 53 bits. \<open>to_double q\<close> is the double nearest to the
  rational \<open>q\<close>, a tie going to the even significand, as the processor rounds every
  result. The counts the program divides are lengths of strings, which are below
  \<open>2\<^sup>6\<^sup>3\<close>, so the quotients and products are either zero or within the
  range of the normal doubles, and the bounds of the exponent play no part.
\<close>

definition round_half_even :: "rat \<Rightarrow> int" where
  "round_half_even x =
     (let f = \<lfloor>x\<rfloor>; d = x - of_int f
      in if d < 1 / 2 then f else if 1 / 2 < d then f + 1 else if even f then f else f + 1)"

text \<open>The number of binary digits of a positive number, less one.\<close>

fun ilog2 :: "nat \<Rightarrow> nat" where
  "ilog2 n = (if n < 2 then 0 else Suc (ilog2 (n div 2)))"

declare ilog2.simps [simp del]

definition pow2 :: "int \<Rightarrow> rat" where
  "pow2 e = (if 0 \<le> e then 2 ^ nat e else 1 / 2 ^ nat (- e))"

text \<open>The exponent \<open>e\<close> with \<open>2\<^sup>e \<le> |q| < 2\<^sup>e\<^sup>+\<^sup>1\<close>, for \<open>q\<close>
  other than zero.\<close>

definition binary_exponent :: "rat \<Rightarrow> int" where
  "binary_exponent q =
     (let (p, d) = quotient_of \<bar>q\<bar>;
          e0 = int (ilog2 (nat p)) - int (ilog2 (nat d))
      in if pow2 e0 \<le> \<bar>q\<bar> then e0 else e0 - 1)"

definition to_double :: "rat \<Rightarrow> rat" where
  "to_double q =
     (if q = 0 then 0
      else let ulp = pow2 (binary_exponent q - 52)
           in of_int (round_half_even (q / ulp)) * ulp)"

text \<open>\<open>a / b\<close> on integers: the quotient, correctly rounded.\<close>

definition truediv :: "int \<Rightarrow> int \<Rightarrow> py_error + rat" where
  "truediv a b =
     (if b = 0 then Inl ZeroDivisionError else Inr (to_double (of_int a / of_int b)))"

text \<open>\<open>x * y\<close> on floats\<close>

definition float_mul :: "rat \<Rightarrow> rat \<Rightarrow> rat" where
  "float_mul x y = to_double (x * y)"

text \<open>
  \<open>round(x, 2)\<close> on a float: CPython writes \<open>x\<close> in decimal with two digits after
  the point, correctly rounded from the exact value of the double and with a tie going to
  the even digit, and reads the digits back as a double.
\<close>

definition round2 :: "rat \<Rightarrow> rat" where
  "round2 x = to_double (of_int (round_half_even (x * 100)) / 100)"

section \<open>models.py: the article and the job\<close>

text \<open>The field \<open>context\<close> is written \<open>link_context\<close> in \<open>InternalLink\<close> and
  \<open>ref_context\<close> in \<open>ExternalReference\<close>, whose field \<open>url\<close> is written
  \<open>ref_url\<close>: the name is reserved, and \<open>SERPResult\<close> has a field \<open>url\<close> too.\<close>

record KeywordAnalysis =
  primary_keyword :: string
  secondary_keywords :: "string list"
  keyword_density :: rat

record InternalLink =
  anchor_text :: string
  target_page :: string
  link_context :: string

record ExternalReference =
  source_name :: string
  ref_url :: string
  ref_context :: string

record SEOMetadata =
  title_tag :: string
  meta_description :: string

record GeneratedArticle =
  content :: string
  outline :: ArticleOutline
  seo_metadata :: SEOMetadata
  keyword_analysis :: KeywordAnalysis
  internal_links :: "InternalLink list"
  external_references :: "ExternalReference list"
  word_count :: int
  faq_section :: "string option"

record ArticleRequest =
  topic :: string
  target_word_count :: int
  language :: string

text \<open>A \<open>datetime\<close> is modelled by its count of microseconds.\<close>

type_synonym datetime = nat

record GenerationJob =
  job_id :: string
  status :: JobStatus
  request :: ArticleRequest
  serp_data :: "SERPData option"
  article :: "GeneratedArticle option"
  error_message :: "string option"
  created_at :: datetime
  updated_at :: datetime

subsection \<open>Validation of the fields of a model\<close>

text \<open>
  A pydantic model checks each field against its declared type when it is built. A value
  of the declared type is taken as it is. What pydantic makes of a value of another type
  given for a \<open>str\<close>, \<open>int\<close> or \<open>float\<close> field differs between its versions:
  it converts some and refuses the others. The conversions are taken from the environment,
  \<open>None\<close> standing for a refusal. A \<open>List\<close> field takes a list and a model field a
  dictionary; a field that is missing from the keyword arguments and has no default is
  refused.
\<close>

record coercion =
  coerce_str :: "json \<Rightarrow> string option"
  coerce_int :: "json \<Rightarrow> int option"
  coerce_float :: "json \<Rightarrow> rat option"

fun validate_str :: "coercion \<Rightarrow> json \<Rightarrow> py_error + string" where
  "validate_str c (JString s) = Inr s"
| "validate_str c v =
     (case coerce_str c v of Some s \<Rightarrow> Inr s
      | None \<Rightarrow> Inl (ValidationError ''str type expected''))"

fun validate_int :: "coercion \<Rightarrow> json \<Rightarrow> py_error + int" where
  "validate_int c (JInt i) = Inr i"
| "validate_int c v =
     (case coerce_int c v of Some i \<Rightarrow> Inr i
      | None \<Rightarrow> Inl (ValidationError ''value is not a valid integer''))"

fun validate_float :: "coercion \<Rightarrow> json \<Rightarrow> py_error + rat" where
  "validate_float c (JFloat r) = Inr r"
| "validate_float c v =
     (case coerce_float c v of Some r \<Rightarrow> Inr r
      | None \<Rightarrow> Inl (ValidationError ''value is not a valid float''))"

fun validate_list :: "(json \<Rightarrow> py_error + 'a) \<Rightarrow> json \<Rightarrow> py_error + 'a list" where
  "validate_list f (JArray xs) = map_raising f xs"
| "validate_list f v = Inl (ValidationError ''value is not a valid list'')"

fun validate_optional_str :: "coercion \<Rightarrow> json \<Rightarrow> py_error + string option" where
  "validate_optional_str c JNull = Inr None"
| "validate_optional_str c v = and_then (validate_str c v) (\<lambda>s. Inr (Some s))"

text \<open>A required field of the keyword arguments \<open>kw\<close>\<close>

definition required :: "(string \<times> json) list \<Rightarrow> string \<Rightarrow> (json \<Rightarrow> py_error + 'a) \<Rightarrow> py_error + 'a" where
  "required kw k validate =
     (case map_of kw k of None \<Rightarrow> Inl (ValidationError ''field required'') | Some v \<Rightarrow> validate v)"

text \<open>\<open>Model(**v)\<close>: the argument after \<open>**\<close> must be a mapping.\<close>

fun kwargs :: "json \<Rightarrow> py_error + (string \<times> json) list" where
  "kwargs (JObject kvs) = Inr kvs"
| "kwargs v = Inl (TypeError ''argument after ** must be a mapping'')"

text \<open>A field holding a nested model, given as a dictionary\<close>

fun validate_model :: "((string \<times> json) list \<Rightarrow> py_error + 'a) \<Rightarrow> json \<Rightarrow> py_error + 'a" where
  "validate_model init (JObject kvs) = init kvs"
| "validate_model init v = Inl (ValidationError ''value is not a valid dict'')"

text \<open>The constructors of the models, from keyword arguments\<close>

definition SERPResult_init ::
    "coercion \<Rightarrow> (string \<times> json) list \<Rightarrow> py_error + SERPResult" where
  "SERPResult_init co kw =
     and_then (required kw ''rank'' (validate_int co)) (\<lambda>r.
     and_then (required kw ''url'' (validate_str co)) (\<lambda>u.
     and_then (required kw ''title'' (validate_str co)) (\<lambda>t.
     and_then (required kw ''snippet'' (validate_str co)) (\<lambda>s.
     Inr \<lparr> rank = r, url = u, title = t, snippet = s \<rparr>))))"

definition SERPData_init ::
    "coercion \<Rightarrow> (string \<times> json) list \<Rightarrow> py_error + SERPData" where
  "SERPData_init co kw =
     and_then (required kw ''query'' (validate_str co)) (\<lambda>q.
     and_then (required kw ''results''
                 (validate_list (validate_model (SERPResult_init co)))) (\<lambda>rs.
     Inr \<lparr> query = q, results = rs \<rparr>))"

definition InternalLink_init ::
    "coercion \<Rightarrow> (string \<times> json) list \<Rightarrow> py_error + InternalLink" where
  "InternalLink_init co kw =
     and_then (required kw ''anchor_text'' (validate_str co)) (\<lambda>a.
     and_then (required kw ''target_page'' (validate_str co)) (\<lambda>t.
     and_then (required kw ''context'' (validate_str co)) (\<lambda>c.
     Inr \<lparr> anchor_text = a, target_page = t, link_context = c \<rparr>)))"

definition ExternalReference_init ::
    "coercion \<Rightarrow> (string \<times> json) list \<Rightarrow> py_error + ExternalReference" where
  "ExternalReference_init co kw =
     and_then (required kw ''source_name'' (validate_str co)) (\<lambda>n.
     and_then (required kw ''url'' (validate_str co)) (\<lambda>u.
     and_then (required kw ''context'' (validate_str co)) (\<lambda>c.
     Inr \<lparr> source_name = n, ref_url = u, ref_context = c \<rparr>)))"

text \<open>\<open>SEOMetadata\<close> with its two validators\<close>

definition validate_title_length :: "string \<Rightarrow> py_error + string" where
  "validate_title_length v =
     (if 60 < length v then Inl (ValidationError ''Title tag must be 60 characters or less'')
      else Inr v)"

definition validate_description_length :: "string \<Rightarrow> py_error + string" where
  "validate_description_length v =
     (if 160 < length v
      then Inl (ValidationError ''Meta description must be 160 characters or less'')
      else Inr v)"

definition SEOMetadata_init ::
    "coercion \<Rightarrow> (string \<times> json) list \<Rightarrow> py_error + SEOMetadata" where
  "SEOMetadata_init co kw =
     and_then (required kw ''title_tag''
                 (\<lambda>v. and_then (validate_str co v) validate_title_length)) (\<lambda>t.
     and_then (required kw ''meta_description''
                 (\<lambda>v. and_then (validate_str co v) validate_description_length)) (\<lambda>m.
     Inr \<lparr> title_tag = t, meta_description = m \<rparr>))"

definition KeywordAnalysis_init ::
    "coercion \<Rightarrow> (string \<times> json) list \<Rightarrow> py_error + KeywordAnalysis" where
  "KeywordAnalysis_init co kw =
     and_then (required kw ''primary_keyword'' (validate_str co)) (\<lambda>p.
     and_then (required kw ''secondary_keywords'' (validate_list (validate_str co))) (\<lambda>s.
     and_then (required kw ''keyword_density'' (validate_float co)) (\<lambda>d.
     Inr \<lparr> primary_keyword = p, secondary_keywords = s, keyword_density = d \<rparr>)))"

definition section_init ::
    "coercion \<Rightarrow> (string \<times> json) list \<Rightarrow> py_error + outline_section" where
  "section_init co kw =
     and_then (required kw ''h2'' (validate_str co)) (\<lambda>a.
     and_then (required kw ''h3'' (validate_list (validate_str co))) (\<lambda>b.
     Inr \<lparr> h2 = a, h3 = b \<rparr>))"

definition ArticleOutline_init ::
    "coercion \<Rightarrow> (string \<times> json) list \<Rightarrow> py_error + ArticleOutline" where
  "ArticleOutline_init co kw =
     and_then (required kw ''h1'' (validate_str co)) (\<lambda>h.
     and_then (required kw ''sections''
                 (validate_list (validate_model (section_init co)))) (\<lambda>s.
     Inr \<lparr> h1 = h, sections = s \<rparr>))"

text \<open>\<open>faq_section\<close> has the default \<open>None\<close>: a missing key is not an error.\<close>

definition GeneratedArticle_init ::
    "coercion \<Rightarrow> (string \<times> json) list \<Rightarrow> py_error + GeneratedArticle" where
  "GeneratedArticle_init co kw =
     and_then (required kw ''content'' (validate_str co)) (\<lambda>c.
     and_then (required kw ''outline'' (validate_model (ArticleOutline_init co))) (\<lambda>ol.
     and_then (required kw ''seo_metadata'' (validate_model (SEOMetadata_init co))) (\<lambda>seo.
     and_then (required kw ''keyword_analysis''
                 (validate_model (KeywordAnalysis_init co))) (\<lambda>ka.
     and_then (required kw ''internal_links''
                 (validate_list (validate_model (InternalLink_init co)))) (\<lambda>il.
     and_then (required kw ''external_references''
                 (validate_list (validate_model (ExternalReference_init co)))) (\<lambda>er.
     and_then (required kw ''word_count'' (validate_int co)) (\<lambda>wc.
     and_then (case map_of kw ''faq_section'' of None \<Rightarrow> Inr None
               | Some v \<Rightarrow> validate_optional_str co v) (\<lambda>faq.
     Inr \<lparr> content = c, outline = ol, seo_metadata = seo, keyword_analysis = ka,
           internal_links = il, external_references = er, word_count = wc,
           faq_section = faq \<rparr>))))))))"

subsection \<open>\<open>.dict()\<close>\<close>

definition SERPResult_dict :: "SERPResult \<Rightarrow> json" where
  "SERPResult_dict r =
     JObject [(''rank'', JInt (rank r)), (''url'', JString (url r)),
              (''title'', JString (title r)), (''snippet'', JString (snippet r))]"

definition SERPData_dict :: "SERPData \<Rightarrow> json" where
  "SERPData_dict d =
     JObject [(''query'', JString (query d)),
              (''results'', JArray (map SERPResult_dict (results d)))]"

definition section_dict :: "outline_section \<Rightarrow> json" where
  "section_dict s = JObject [(''h2'', JString (h2 s)), (''h3'', JArray (map JString (h3 s)))]"

definition ArticleOutline_dict :: "ArticleOutline \<Rightarrow> json" where
  "ArticleOutline_dict ol =
     JObject [(''h1'', JString (h1 ol)), (''sections'', JArray (map section_dict (sections ol)))]"

definition SEOMetadata_dict :: "SEOMetadata \<Rightarrow> json" where
  "SEOMetadata_dict m =
     JObject [(''title_tag'', JString (title_tag m)),
              (''meta_description'', JString (meta_description m))]"

definition KeywordAnalysis_dict :: "KeywordAnalysis \<Rightarrow> json" where
  "KeywordAnalysis_dict k =
     JObject [(''primary_keyword'', JString (primary_keyword k)),
              (''secondary_keywords'', JArray (map JString (secondary_keywords k))),
              (''keyword_density'', JFloat (keyword_density k))]"

definition InternalLink_dict :: "InternalLink \<Rightarrow> json" where
  "InternalLink_dict l =
     JObject [(''anchor_text'', JString (anchor_text l)),
              (''target_page'', JString (target_page l)),
              (''context'', JString (link_context l))]"

definition ExternalReference_dict :: "ExternalReference \<Rightarrow> json" where
  "ExternalReference_dict r =
     JObject [(''source_name'', JString (source_name r)), (''url'', JString (ref_url r)),
              (''context'', JString (ref_context r))]"

definition GeneratedArticle_dict :: "GeneratedArticle \<Rightarrow> json" where
  "GeneratedArticle_dict a =
     JObject [(''content'', JString (content a)),
              (''outline'', ArticleOutline_dict (outline a)),
              (''seo_metadata'', SEOMetadata_dict (seo_metadata a)),
              (''keyword_analysis'', KeywordAnalysis_dict (keyword_analysis a)),
              (''internal_links'', JArray (map InternalLink_dict (internal_links a))),
              (''external_references'',
                 JArray (map ExternalReference_dict (external_references a))),
              (''word_count'', JInt (word_count a)),
              (''faq_section'', (case faq_section a of None \<Rightarrow> JNull | Some s \<Rightarrow> JString s))]"

section \<open>The environment\<close>

text \<open>
  What the program reads from outside itself. \<open>uuid.uuid4()\<close> as text,
  \<open>datetime.utcnow()\<close> and the generative service are functions of the number of calls
  made so far, so that successive calls may give any values. The service answers a prompt
  with the text of its message (\<open>Inr\<close>) or raises; \<open>Inl\<close> holds the \<open>str()\<close> of the
  exception, and stands for every exception of the call expression, the look-up of the
  client included. \<open>json_loads\<close> is \<open>json.loads\<close>, with \<open>None\<close> for
  \<open>JSONDecodeError\<close>; \<open>str_title\<close> is \<open>str.title\<close>; \<open>pydantic\<close> holds the
  conversions of the installed pydantic.
\<close>

record env =
  uuid4 :: "nat \<Rightarrow> string"
  utcnow :: "nat \<Rightarrow> datetime"
  messages_create :: "nat \<Rightarrow> string \<Rightarrow> string + string"
  json_loads :: "string \<Rightarrow> json option"
  str_title :: "string \<Rightarrow> string"
  pydantic :: coercion

text \<open>
  A row of the table \<open>jobs\<close> without its primary key \<open>job_id\<close>, which the table is
  indexed by. The column \<open>target_word_count\<close> is an \<open>INTEGER\<close>, a signed integer of
  64 bits. The text columns written by \<open>json.dumps\<close> and \<open>isoformat\<close> and read by
  \<open>json.loads\<close> and \<open>fromisoformat\<close> are modelled by the value they encode.
\<close>

record job_row =
  status_col :: string
  topic_col :: string
  target_word_count_col :: "64 word"
  language_col :: string
  serp_data_col :: "json option"
  article_data_col :: "json option"
  error_message_col :: "string option"
  created_at_col :: datetime
  updated_at_col :: datetime

record world =
  table :: "string \<rightharpoonup> job_row"
  uuid_calls :: nat
  clock_calls :: nat
  api_calls :: nat

section \<open>article\_generator.py\<close>

definition nl :: string where
  "nl = [CHR 0x0A]"

definition create_article_prompt :: "string \<Rightarrow> ArticleOutline \<Rightarrow> int \<Rightarrow> string list \<Rightarrow> string" where
  \<open>create_article_prompt tpc ol twc questions =
     (let sections_str =
            join nl (map (\<lambda>s. ''## '' @ h2 s @ nl @ join nl (map (\<lambda>h. ''### '' @ h) (h3 s)))
                         (sections ol))
      in join nl
        [ ''Generate a complete, SEO-optimized article about "'' @ tpc @ ''".'',
          '''',
          ''OUTLINE:'',
          ''# '' @ h1 ol,
          '''',
          sections_str,
          '''',
          ''REQUIREMENTS:'',
          ''- Target word count: '' @ str_int twc @ '' words'',
          ''- Write in a natural, engaging style (not robotic)'',
          ''- Include primary keyword "'' @ tpc @ ''" in the first paragraph'',
          ''- Use proper HTML heading hierarchy (h1, h2, h3)'',
          ''- Each section should be substantial and informative'',
          ''- Include a FAQ section at the end answering: '' @ join '', '' (take 3 questions),
          '''',
          ''OUTPUT FORMAT (must be valid JSON):'',
          ''{'',
          ''    "article_html": "Full HTML article with proper heading tags",'',
          ''    "title_tag": "SEO title under 60 chars",'',
          ''    "meta_description": "Meta description under 160 chars",'',
          ''    "primary_keyword": "main keyword",'',
          ''    "secondary_keywords": ["keyword1", "keyword2", "keyword3"],'',
          ''    "internal_links": ['',
          ''        {"anchor_text": "text", "target_page": "suggested-page-topic", "context": "where it fits"},'',
          ''        ...3-5 suggestions'',
          ''    ],'',
          ''    "external_references": ['',
          ''        {"source_name": "Source", "url": "https://example.com", "context": "what to cite"},'',
          ''        ...2-4 authoritative sources'',
          ''    ],'',
          ''    "faq_html": "HTML FAQ section"'',
          ''}'',
          '''',
          ''Generate the article now as JSON only (no markdown code blocks):'' ])\<close>

text \<open>The cleaning of the response before it is decoded: surrounding space and the
  code-fence markers are removed.\<close>

definition clean_response :: "string \<Rightarrow> string" where
  "clean_response response =
     (let r0 = py_strip response;
          r1 = (if startswith r0 ''```json'' then drop 7 r0 else r0);
          r2 = (if startswith r1 ''```'' then drop 3 r1 else r1);
          r3 = (if endswith r2 ''```'' then take (length r2 - 3) r2 else r2)
      in py_strip r3)"

definition create_fallback_article ::
    "(string \<Rightarrow> string) \<Rightarrow> string \<Rightarrow> ArticleOutline \<Rightarrow> int \<Rightarrow> json" where
  "create_fallback_article ttl tpc ol twc =
     JObject
       [ (''article_html'',
            JString (''<h1>'' @ h1 ol @ ''</h1><p>Article content for '' @ tpc @ ''...</p>'')),
         (''title_tag'', JString (ttl tpc @ '' - Complete Guide'')),
         (''meta_description'',
            JString (''Learn everything about '' @ tpc
                     @ ''. Expert guide with tips and strategies.'')),
         (''primary_keyword'', JString tpc),
         (''secondary_keywords'',
            JArray [JString (tpc @ '' guide''), JString (tpc @ '' tips''),
                    JString (tpc @ '' strategies'')]),
         (''internal_links'',
            JArray [JObject [(''anchor_text'', JString (tpc @ '' tools'')),
                             (''target_page'', JString (tpc @ ''-tools'')),
                             (''context'', JString ''In tools section'')]]),
         (''external_references'',
            JArray [JObject [(''source_name'', JString ''Industry Report''),
                             (''url'', JString ''https://example.com''),
                             (''context'', JString ''Cite statistics'')]]),
         (''faq_html'', JString (''<h2>FAQ</h2><p>Common questions about '' @ tpc @ ''</p>'')) ]"

text \<open>The \<open>try\<close> statement of \<open>_parse_article_response\<close>: the cleaned response is
  decoded, and the fallback takes its place when \<open>json.JSONDecodeError\<close> is raised, and
  then only.\<close>

definition decode_response :: "env \<Rightarrow> string \<Rightarrow> string \<Rightarrow> ArticleOutline \<Rightarrow> int \<Rightarrow> json" where
  "decode_response e response tpc ol twc =
     (case json_loads e (clean_response response) of
        Some d \<Rightarrow> d
      | None \<Rightarrow> create_fallback_article (str_title e) tpc ol twc)"

text \<open>\<open>(primary_count / word_count * 100) if word_count > 0 else 0\<close>\<close>

definition keyword_density_of :: "nat \<Rightarrow> nat \<Rightarrow> py_error + rat" where
  "keyword_density_of primary_count wc =
     (if 0 < wc
      then and_then (truediv (int primary_count) (int wc)) (\<lambda>q. Inr (float_mul q 100))
      else Inr 0)"

text \<open>
  The rest of \<open>_parse_article_response\<close>, on the decoded data; every step may raise. The
  keyword arguments of \<open>GeneratedArticle(...)\<close> are evaluated in the order they are
  written, then the model checks \<open>faq_section\<close> (the other fields are given as a string,
  as model instances or as computed numbers).
\<close>

definition build_article :: "coercion \<Rightarrow> json \<Rightarrow> ArticleOutline \<Rightarrow> py_error + GeneratedArticle" where
  "build_article co data ol =
     and_then (subscript data ''article_html'') (\<lambda>html_v.
     and_then (str_receiver html_v ''split'') (\<lambda>html.
     let wc = length (py_split html);
         content_lower = py_lower html
     in
     and_then (subscript data ''primary_keyword'') (\<lambda>pk_v.
     and_then (str_receiver pk_v ''lower'') (\<lambda>pk.
     let primary_count = py_count content_lower (py_lower pk)
     in
     and_then (keyword_density_of primary_count wc) (\<lambda>density.
     and_then (subscript data ''title_tag'') (\<lambda>tt_v.
     and_then (slice_to tt_v 60) (\<lambda>tt.
     and_then (subscript data ''meta_description'') (\<lambda>md_v.
     and_then (slice_to md_v 160) (\<lambda>md.
     and_then (SEOMetadata_init co [(''title_tag'', tt), (''meta_description'', md)]) (\<lambda>seo.
     and_then (subscript data ''secondary_keywords'') (\<lambda>sk_v.
     and_then (KeywordAnalysis_init co
                 [(''primary_keyword'', pk_v), (''secondary_keywords'', sk_v),
                  (''keyword_density'', JFloat (round2 density))]) (\<lambda>ka.
     and_then (subscript data ''internal_links'') (\<lambda>il_v.
     and_then (iterate il_v) (\<lambda>links.
     and_then (map_raising (\<lambda>link. and_then (kwargs link) (InternalLink_init co)) links)
       (\<lambda>il.
     and_then (subscript data ''external_references'') (\<lambda>er_v.
     and_then (iterate er_v) (\<lambda>refs.
     and_then (map_raising (\<lambda>r. and_then (kwargs r) (ExternalReference_init co)) refs)
       (\<lambda>er.
     and_then (dict_get data ''faq_html'') (\<lambda>faq_v.
     and_then (validate_optional_str co faq_v) (\<lambda>faq.
     Inr \<lparr> content = html, outline = ol, seo_metadata = seo, keyword_analysis = ka,
           internal_links = il, external_references = er, word_count = int wc,
           faq_section = faq \<rparr>))))))))))))))))))))"

definition parse_article_response ::
    "env \<Rightarrow> string \<Rightarrow> string \<Rightarrow> ArticleOutline \<Rightarrow> int \<Rightarrow> py_error + GeneratedArticle" where
  "parse_article_response e response tpc ol twc =
     build_article (pydantic e) (decode_response e response tpc ol twc) ol"

text \<open>\<open>ArticleGenerator.generate_article\<close>: an exception of the service call is not
  caught here.\<close>

definition ArticleGenerator_generate_article ::
    "env \<Rightarrow> string \<Rightarrow> ArticleOutline \<Rightarrow> int \<Rightarrow> string list \<Rightarrow> world
     \<Rightarrow> (py_error + GeneratedArticle) \<times> world" where
  "ArticleGenerator_generate_article e tpc ol twc questions w =
     (let prompt = create_article_prompt tpc ol twc questions;
          message = messages_create e (api_calls w) prompt;
          w' = w\<lparr> api_calls := Suc (api_calls w) \<rparr>
      in case message of
           Inl m \<Rightarrow> (Inl (ServiceError m), w')
         | Inr response_text \<Rightarrow> (parse_article_response e response_text tpc ol twc, w'))"

section \<open>job\_manager.py\<close>

text \<open>What an \<open>INTEGER\<close> column holds: \<open>sqlite3\<close> raises \<open>OverflowError\<close> when it
  is given a Python integer outside the signed 64-bit range.\<close>

definition fits_int64 :: "int \<Rightarrow> bool" where
  "fits_int64 i = (- (2 ^ 63) \<le> i \<and> i < 2 ^ 63)"

text \<open>\<open>_save_job\<close>: \<open>INSERT OR REPLACE\<close> of the whole row under the job's id. A model
  instance is always true, so \<open>if job.serp_data\<close> asks whether the field is set.\<close>

definition job_to_row :: "GenerationJob \<Rightarrow> job_row" where
  "job_to_row job =
     \<lparr> status_col = JobStatus_value (status job),
       topic_col = topic (request job),
       target_word_count_col = word_of_int (target_word_count (request job)),
       language_col = language (request job),
       serp_data_col = map_option SERPData_dict (serp_data job),
       article_data_col = map_option GeneratedArticle_dict (article job),
       error_message_col = error_message job,
       created_at_col = created_at job,
       updated_at_col = updated_at job \<rparr>"

definition save_job :: "GenerationJob \<Rightarrow> world \<Rightarrow> py_error + world" where
  "save_job job w =
     (if fits_int64 (target_word_count (request job))
      then Inr (w\<lparr> table := (table w)(job_id job \<mapsto> job_to_row job) \<rparr>)
      else Inl (OverflowError ''Python int too large to convert to SQLite INTEGER''))"

text \<open>\<open>_row_to_job\<close>, on the row stored under \<open>jid\<close>\<close>

definition row_to_job :: "coercion \<Rightarrow> string \<Rightarrow> job_row \<Rightarrow> py_error + GenerationJob" where
  "row_to_job co jid row =
     (let req = \<lparr> topic = topic_col row,
                  target_word_count = sint (target_word_count_col row),
                  language = language_col row \<rparr>
      in
      and_then (case serp_data_col row of
                  None \<Rightarrow> Inr None
                | Some v \<Rightarrow> and_then (and_then (kwargs v) (SERPData_init co))
                             (\<lambda>d. Inr (Some d)))
        (\<lambda>serp.
      and_then (case article_data_col row of
                  None \<Rightarrow> Inr None
                | Some v \<Rightarrow> and_then (and_then (kwargs v) (GeneratedArticle_init co))
                             (\<lambda>a. Inr (Some a)))
        (\<lambda>art.
      case JobStatus_of_value (status_col row) of
        None \<Rightarrow> Inl (ValueError ([CHR 0x27] @ status_col row @ [CHR 0x27]
                                 @ '' is not a valid JobStatus''))
      | Some st \<Rightarrow>
          Inr \<lparr> job_id = jid, status = st, request = req, serp_data = serp, article = art,
                error_message = error_message_col row,
                created_at = created_at_col row, updated_at = updated_at_col row \<rparr>)))"

definition get_job :: "env \<Rightarrow> string \<Rightarrow> world \<Rightarrow> py_error + GenerationJob option" where
  "get_job e jid w =
     (case table w jid of
        None \<Rightarrow> Inr None
      | Some row \<Rightarrow> and_then (row_to_job (pydantic e) jid row) (\<lambda>job. Inr (Some job)))"

text \<open>A call of \<open>_save_job\<close> as a step: an exception leaves the table as it was.\<close>

definition persist :: "GenerationJob \<Rightarrow> world \<Rightarrow> (py_error + unit) \<times> world" where
  "persist job w = (case save_job job w of Inl x \<Rightarrow> (Inl x, w) | Inr w' \<Rightarrow> (Inr (), w'))"

text \<open>\<open>create_job\<close>, reading \<open>uuid.uuid4()\<close> and \<open>datetime.utcnow()\<close>\<close>

definition create_job ::
    "env \<Rightarrow> ArticleRequest \<Rightarrow> world \<Rightarrow> (py_error + GenerationJob) \<times> world" where
  "create_job e req w =
     (let jid = uuid4 e (uuid_calls w);
          now = utcnow e (clock_calls w);
          job = \<lparr> job_id = jid, status = PENDING, request = req, serp_data = None,
                  article = None, error_message = None, created_at = now, updated_at = now \<rparr>
      in case persist job (w\<lparr> uuid_calls := Suc (uuid_calls w),
                               clock_calls := Suc (clock_calls w) \<rparr>) of
           (Inl x, w') \<Rightarrow> (Inl x, w')
         | (Inr _, w') \<Rightarrow> (Inr job, w'))"

definition not_found :: "string \<Rightarrow> py_error" where
  "not_found jid = ValueError (''Job '' @ jid @ '' not found'')"

text \<open>\<open>update_job_status\<close>: \<open>if error:\<close> holds for a message that is given and is not
  the empty string.\<close>

definition update_job_status ::
    "env \<Rightarrow> string \<Rightarrow> JobStatus \<Rightarrow> string option \<Rightarrow> world \<Rightarrow> (py_error + unit) \<times> world" where
  "update_job_status e jid st err w =
     (case get_job e jid w of
        Inl x \<Rightarrow> (Inl x, w)
      | Inr None \<Rightarrow> (Inl (not_found jid), w)
      | Inr (Some job) \<Rightarrow>
          (let job1 = job\<lparr> status := st, updated_at := utcnow e (clock_calls w) \<rparr>;
               job2 = (case err of
                         None \<Rightarrow> job1
                       | Some m \<Rightarrow> if m \<noteq> [] then job1\<lparr> error_message := Some m \<rparr> else job1)
           in persist job2 (w\<lparr> clock_calls := Suc (clock_calls w) \<rparr>)))"

definition save_serp_data ::
    "env \<Rightarrow> string \<Rightarrow> SERPData \<Rightarrow> world \<Rightarrow> (py_error + unit) \<times> world" where
  "save_serp_data e jid d w =
     (case get_job e jid w of
        Inl x \<Rightarrow> (Inl x, w)
      | Inr None \<Rightarrow> (Inl (not_found jid), w)
      | Inr (Some job) \<Rightarrow>
          (let job1 = job\<lparr> serp_data := Some d, updated_at := utcnow e (clock_calls w) \<rparr>
           in persist job1 (w\<lparr> clock_calls := Suc (clock_calls w) \<rparr>)))"

definition save_article ::
    "env \<Rightarrow> string \<Rightarrow> GeneratedArticle \<Rightarrow> world \<Rightarrow> (py_error + unit) \<times> world" where
  "save_article e jid a w =
     (case get_job e jid w of
        Inl x \<Rightarrow> (Inl x, w)
      | Inr None \<Rightarrow> (Inl (not_found jid), w)
      | Inr (Some job) \<Rightarrow>
          (let job1 = job\<lparr> article := Some a, status := COMPLETED,
                           updated_at := utcnow e (clock_calls w) \<rparr>
           in persist job1 (w\<lparr> clock_calls := Suc (clock_calls w) \<rparr>)))"

section \<open>seo\_agent.py\<close>

text \<open>A step of a \<open>try\<close> block that changes the world: an exception leaves the block with
  the world as it then is.\<close>

definition then_step ::
    "(py_error + 'a) \<times> world \<Rightarrow> ('a \<Rightarrow> world \<Rightarrow> (py_error + 'b) \<times> world)
     \<Rightarrow> (py_error + 'b) \<times> world" where
  "then_step r f = (case r of (Inl x, w) \<Rightarrow> (Inl x, w) | (Inr v, w) \<Rightarrow> f v w)"

text \<open>The steps from the themes to the saved article, which \<open>generate_article\<close> and the
  branch of \<open>resume_job\<close> that has the search data both go through.\<close>

definition write_article ::
    "env \<Rightarrow> string \<Rightarrow> ArticleRequest \<Rightarrow> SERPData \<Rightarrow> world \<Rightarrow> (py_error + unit) \<times> world" where
  "write_article e jid req d w =
     (let themes = extract_themes d;
          ol = generate_outline (str_title e) d themes;
          questions = extract_questions d
      in then_step (ArticleGenerator_generate_article e (topic req) ol (target_word_count req)
                      questions w)
           (\<lambda>a w1. save_article e jid a w1))"

text \<open>The body of the \<open>try\<close> block of \<open>generate_article\<close>, for the job created under
  \<open>jid\<close>\<close>

definition generate_article_try ::
    "env \<Rightarrow> string \<Rightarrow> ArticleRequest \<Rightarrow> world \<Rightarrow> (py_error + GenerationJob option) \<times> world" where
  "generate_article_try e jid req w =
     then_step (update_job_status e jid RUNNING None w) (\<lambda>_ w1.
     let d = get_serp_data (topic req) in
     then_step (save_serp_data e jid d w1) (\<lambda>_ w2.
     then_step (write_article e jid req d w2) (\<lambda>_ w3.
     (get_job e jid w3, w3))))"

text \<open>The \<open>except\<close> clause: the job is marked failed with \<open>str(e)\<close>, then the
  exception is raised again; an exception of the clause itself takes its place.\<close>

definition mark_failed ::
    "env \<Rightarrow> string \<Rightarrow> py_error \<Rightarrow> world \<Rightarrow> (py_error + 'a) \<times> world" where
  "mark_failed e jid x w =
     (case update_job_status e jid FAILED (Some (str_error x)) w of
        (Inl y, w') \<Rightarrow> (Inl y, w')
      | (Inr _, w') \<Rightarrow> (Inl x, w'))"

text \<open>\<open>generate_article\<close>: the job is created before the \<open>try\<close> block, so an
  exception of \<open>create_job\<close> leaves at once.\<close>

definition generate_article ::
    "env \<Rightarrow> ArticleRequest \<Rightarrow> world \<Rightarrow> (py_error + GenerationJob option) \<times> world" where
  "generate_article e req w =
     (case create_job e req w of
        (Inl x, w0) \<Rightarrow> (Inl x, w0)
      | (Inr job, w0) \<Rightarrow>
          (case generate_article_try e (job_id job) req w0 of
             (Inr r, w') \<Rightarrow> (Inr r, w')
           | (Inl x, w') \<Rightarrow> mark_failed e (job_id job) x w'))"

definition resume_job ::
    "env \<Rightarrow> string \<Rightarrow> world \<Rightarrow> (py_error + GenerationJob option) \<times> world" where
  "resume_job e jid w =
     (case get_job e jid w of
        Inl x \<Rightarrow> (Inl x, w)
      | Inr None \<Rightarrow> (Inl (not_found jid), w)
      | Inr (Some job) \<Rightarrow>
          if status job = COMPLETED then (Inr (Some job), w)
          else
            (case (case serp_data job of
                     Some d \<Rightarrow>
                       then_step (write_article e jid (request job) d w)
                         (\<lambda>_ w1. (get_job e jid w1, w1))
                   | None \<Rightarrow> generate_article e (request job) w) of
               (Inr r, w') \<Rightarrow> (Inr r, w')
             | (Inl x, w') \<Rightarrow> mark_failed e jid x w'))"

definition get_job_status :: "env \<Rightarrow> string \<Rightarrow> world \<Rightarrow> py_error + GenerationJob" where
  "get_job_status e jid w =
     (case get_job e jid w of
        Inl x \<Rightarrow> Inl x
      | Inr None \<Rightarrow> Inl (not_found jid)
      | Inr (Some job) \<Rightarrow> Inr job)"

section \<open>Well-formed records\<close>

text \<open>What the validators of \<open>SEOMetadata\<close> enforce on every instance that is built: the
  two length bounds. A job is well formed when its article, if any, is.\<close>

definition valid_article :: "GeneratedArticle \<Rightarrow> bool" where
  "valid_article a =
     (length (title_tag (seo_metadata a)) \<le> 60
      \<and> length (meta_description (seo_metadata a)) \<le> 160)"

definition valid_job :: "GenerationJob \<Rightarrow> bool" where
  "valid_job job = (case article job of None \<Rightarrow> True | Some a \<Rightarrow> valid_article a)"

section \<open>Sample values\<close>

definition world0 :: world where
  "world0 = \<lparr> table = Map.empty, uuid_calls = 0, clock_calls = 0, api_calls = 0 \<rparr>"

definition example_outline :: ArticleOutline where
  "example_outline =
     \<lparr> h1 = ''The Complete Guide to Seo'',
       sections = [\<lparr> h2 = ''What is Seo?'', h3 = [''Definition and Overview''] \<rparr>] \<rparr>"

definition example_article :: GeneratedArticle where
  "example_article =
     \<lparr> content = ''<h1>Seo</h1><p>seo tips</p>'',
       outline = example_outline,
       seo_metadata = \<lparr> title_tag = ''Seo - Complete Guide'',
                        meta_description = ''Learn everything about seo.'' \<rparr>,
       keyword_analysis = \<lparr> primary_keyword = ''seo'', secondary_keywords = [''seo tips''],
                            keyword_density = 100 \<rparr>,
       internal_links = [\<lparr> anchor_text = ''seo tools'', target_page = ''seo-tools'',
                            link_context = ''In tools section'' \<rparr>],
       external_references = [],
       word_count = 2,
       faq_section = None \<rparr>"

definition example_job :: GenerationJob where
  "example_job =
     \<lparr> job_id = ''job-a'', status = COMPLETED,
       request = \<lparr> topic = ''seo'', target_word_count = 800, language = ''en'' \<rparr>,
       serp_data = Some \<lparr> query = ''seo'',
                          results = [\<lparr> rank = 1, url = ''https://example0.com/article'',
                                       title = ''Top 10 seo - Complete Guide 2025'',
                                       snippet = ''Discover the best practices for seo.'' \<rparr>] \<rparr>,
       article = Some example_article,
       error_message = None, created_at = 1000, updated_at = 1003 \<rparr>"

text \<open>A job whose target word count is \<open>2\<^sup>6\<^sup>3\<close>, as the command line accepts it.\<close>

definition huge_request :: ArticleRequest where
  "huge_request =
     \<lparr> topic = ''seo'', target_word_count = 9223372036854775808, language = ''en'' \<rparr>"

definition huge_job :: GenerationJob where
  "huge_job =
     \<lparr> job_id = ''job-b'', status = PENDING, request = huge_request, serp_data = None,
       article = None, error_message = None, created_at = 1000, updated_at = 1000 \<rparr>"

text \<open>
  Texts the service may answer with, and what \<open>json.loads\<close> makes of them after
  cleaning: the empty object; an article without words; an article whose title tag has 70
  characters and whose meta description has 170; an article of 160 words that holds its
  keyword 23 times. A text that is not JSON makes it raise \<open>JSONDecodeError\<close>.
  \<open>json_loads_samples\<close> is \<open>json.loads\<close> on these texts and is applied to no other.
\<close>

definition wordless_reply :: string where
  \<open>wordless_reply =
     ''{"article_html": "", "title_tag": "Seo", "meta_description": "About seo", ''
     @ ''"primary_keyword": "seo", "secondary_keywords": [], "internal_links": [], ''
     @ ''"external_references": []}''\<close>

definition wordless_data :: json where
  "wordless_data =
     JObject [(''article_html'', JString ''''), (''title_tag'', JString ''Seo''),
              (''meta_description'', JString ''About seo''),
              (''primary_keyword'', JString ''seo''), (''secondary_keywords'', JArray []),
              (''internal_links'', JArray []), (''external_references'', JArray [])]"

definition long_title :: string where
  "long_title = replicate 70 (CHR ''T'')"

definition long_description :: string where
  "long_description = replicate 170 (CHR ''d'')"

definition long_title_reply :: string where
  \<open>long_title_reply =
     ''{"article_html": "seo tips", "title_tag": "'' @ long_title
     @ ''", "meta_description": "'' @ long_description
     @ ''", "primary_keyword": "seo", "secondary_keywords": [], "internal_links": [], ''
     @ ''"external_references": []}''\<close>

definition long_title_data :: json where
  "long_title_data =
     JObject [(''article_html'', JString ''seo tips''), (''title_tag'', JString long_title),
              (''meta_description'', JString long_description),
              (''primary_keyword'', JString ''seo''), (''secondary_keywords'', JArray []),
              (''internal_links'', JArray []), (''external_references'', JArray [])]"

definition dense_html :: string where
  "dense_html = concat (replicate 23 ''seo '') @ concat (replicate 137 ''x '')"

definition dense_reply :: string where
  \<open>dense_reply =
     ''{"article_html": "'' @ dense_html
     @ ''", "title_tag": "Seo", "meta_description": "About seo", ''
     @ ''"primary_keyword": "SEO", "secondary_keywords": [], "internal_links": [], ''
     @ ''"external_references": []}''\<close>

definition dense_data :: json where
  "dense_data =
     JObject [(''article_html'', JString dense_html), (''title_tag'', JString ''Seo''),
              (''meta_description'', JString ''About seo''),
              (''primary_keyword'', JString ''SEO''), (''secondary_keywords'', JArray []),
              (''internal_links'', JArray []), (''external_references'', JArray [])]"

definition json_loads_samples :: "string \<Rightarrow> json option" where
  "json_loads_samples =
     map_of [(''{}'', JObject []), (wordless_reply, wordless_data),
             (long_title_reply, long_title_data), (dense_reply, dense_data)]"

text \<open>A pydantic that converts nothing.\<close>

definition refusing :: coercion where
  "refusing = \<lparr> coerce_str = (\<lambda>v. None), coerce_int = (\<lambda>v. None),
                coerce_float = (\<lambda>v. None) \<rparr>"

text \<open>An environment whose identifiers are \<open>job-0\<close>, \<open>job-1\<close>, ..., whose clock reads
  1000, 1001, ..., and whose service is given.\<close>

definition sample_env :: "(nat \<Rightarrow> string \<Rightarrow> string + string) \<Rightarrow> env" where
  "sample_env service =
     \<lparr> uuid4 = (\<lambda>n. ''job-'' @ str_nat n), utcnow = (\<lambda>n. 1000 + n),
       messages_create = service, json_loads = json_loads_samples,
       str_title = ascii_title, pydantic = refusing \<rparr>"

definition seo_request :: ArticleRequest where
  "seo_request = \<lparr> topic = ''seo'', target_word_count = 800, language = ''en'' \<rparr>"

text \<open>Services: one that raises an exception with a given message at every call, one that
  answers every prompt with a given text, and one whose first call raises \<open>boom\<close> and
  whose later calls answer with a text that is not JSON.\<close>

definition raising :: "string \<Rightarrow> nat \<Rightarrow> string \<Rightarrow> string + string" where
  "raising m n prompt = Inl m"

definition replying :: "string \<Rightarrow> nat \<Rightarrow> string \<Rightarrow> string + string" where
  "replying t n prompt = Inr t"

definition flaky :: "nat \<Rightarrow> string \<Rightarrow> string + string" where
  "flaky n prompt = (if n = 0 then Inl ''boom'' else Inr ''not json'')"

section \<open>Sequences of operations\<close>

text \<open>The outline and the prompt that \<open>generate_article\<close> derives from a request.\<close>

definition outline_for :: "env \<Rightarrow> ArticleRequest \<Rightarrow> ArticleOutline" where
  "outline_for e req =
     (let d = get_serp_data (topic req) in generate_outline (str_title e) d (extract_themes d))"

definition prompt_for :: "env \<Rightarrow> ArticleRequest \<Rightarrow> string" where
  "prompt_for e req =
     create_article_prompt (topic req) (outline_for e req) (target_word_count req)
       (extract_questions (get_serp_data (topic req)))"

text \<open>What the content generator makes of the service's answer to that prompt, at the
  \<open>n\<close>-th call of the service.\<close>

definition generated :: "env \<Rightarrow> ArticleRequest \<Rightarrow> nat \<Rightarrow> py_error + GeneratedArticle" where
  "generated e req n =
     (case messages_create e n (prompt_for e req) of
        Inl m \<Rightarrow> Inl (ServiceError m)
      | Inr response_text \<Rightarrow>
          parse_article_response e response_text (topic req) (outline_for e req)
            (target_word_count req))"

text \<open>The operations that create a job, attach search data to it, or run the whole
  pipeline, applied one after the other to a store.\<close>

datatype store_op =
    Create ArticleRequest
  | SaveSourceData string SERPData
  | StartGeneration ArticleRequest

fun apply_op :: "env \<Rightarrow> store_op \<Rightarrow> world \<Rightarrow> world" where
  "apply_op e (Create req) w = snd (create_job e req w)"
| "apply_op e (SaveSourceData jid d) w = snd (save_serp_data e jid d w)"
| "apply_op e (StartGeneration req) w = snd (generate_article e req w)"

definition run_ops :: "env \<Rightarrow> store_op list \<Rightarrow> world \<Rightarrow> world" where
  "run_ops e ops w = fold (apply_op e) ops w"

section \<open>Properties of the content source\<close>

text \<open>
  C10. For every topic, \<open>get_serp_data\<close> returns a value whose query is the topic and
  whose results are exactly ten entries with the ranks 1 to 10 in positional order. The
  value is a function of the topic alone, so two calls with one topic agree.
\<close>

theorem get_serp_data_ranks:
  "query (get_serp_data tpc) = tpc
   \<and> length (results (get_serp_data tpc)) = 10
   \<and> map rank (results (get_serp_data tpc)) = [1, 2, 3, 4, 5, 6, 7, 8, 9, 10]"
  by (simp add: get_serp_data_def generate_mock_serp_def mock_result_def upt_rec)

section \<open>The themes of the source data\<close>

lemma first_occurrences_snoc:
  "first_occurrences (ws @ [w]) =
     (if w \<in> set ws then first_occurrences ws else first_occurrences ws @ [w])"
  by (simp add: first_occurrences_def)

lemma distinct_first_occurrences: "distinct (first_occurrences ws)"
  by (simp add: first_occurrences_def)

lemma set_first_occurrences: "set (first_occurrences ws) = set ws"
  by (simp add: first_occurrences_def)

lemma counter_add_map:
  "distinct ks \<Longrightarrow>
   counter_add w (map (\<lambda>x. (x, f x)) ks) =
     (if w \<in> set ks then map (\<lambda>x. (x, if x = w then Suc (f x) else f x)) ks
      else map (\<lambda>x. (x, f x)) ks @ [(w, 1)])"
  by (induction ks) auto

lemma term_frequencies_snoc:
  "term_frequencies (ws @ [w]) = counter_add w (term_frequencies ws)"
  unfolding term_frequencies_def
  by (auto simp: counter_add_map distinct_first_occurrences set_first_occurrences
      first_occurrences_snoc)

lemma Counter_term_frequencies: "Counter ws = term_frequencies ws"
proof (induction ws rule: rev_induct)
  case Nil
  show ?case by (simp add: Counter_def term_frequencies_def first_occurrences_def)
next
  case (snoc w ws)
  then show ?case by (simp add: Counter_def term_frequencies_snoc)
qed

text \<open>The runs of a text: the first run and the runs of what follows it.\<close>

lemma runs_split:
  "runs p cur s =
     (if cur @ takeWhile p s = [] then [] else [cur @ takeWhile p s])
     @ runs p [] (dropWhile p s)"
proof (induction s arbitrary: cur)
  case Nil
  show ?case by simp
next
  case (Cons c cs)
  show ?case
  proof (cases "p c")
    case True
    then show ?thesis using Cons.IH [of "cur @ [c]"] by simp
  next
    case False
    then show ?thesis by simp
  qed
qed

lemma is_alpha_is_word: "is_alpha c \<Longrightarrow> is_word c"
  by (simp add: is_word_def)

text \<open>Inside a word nothing matches before the word ends.\<close>

lemma findall_from_inside:
  "findall_from True s = findall_from False (dropWhile is_word s)"
proof (induction s)
  case Nil
  show ?case by (simp add: findall_from.simps [of _ "[]"] match_here_def boundary_def)
next
  case (Cons c cs)
  show ?case
  proof (cases "is_word c")
    case True
    then have "match_here True (c # cs) = None"
      by (simp add: match_here_def boundary_def)
    then show ?thesis
      using True Cons.IH by (simp add: findall_from.simps [of True "c # cs"])
  next
    case False
    then have "\<not> is_alpha c" using is_alpha_is_word by blast
    then have "match_here pw (c # cs) = None" for pw
      by (simp add: match_here_def)
    then show ?thesis
      using False by (simp add: findall_from.simps [of _ "c # cs"])
  qed
qed

text \<open>At the start of a word: the attempt succeeds exactly when the whole word consists of
  at least four letters, and then it takes the whole word.\<close>

lemma takeWhile_alpha_word:
  "takeWhile is_alpha s = takeWhile is_word s \<longleftrightarrow>
     (case dropWhile is_alpha s of [] \<Rightarrow> True | d # _ \<Rightarrow> \<not> is_word d)"
  by (induction s) (auto simp: is_alpha_is_word)

lemma all_alpha_word:
  "list_all is_alpha (takeWhile is_word s) \<longleftrightarrow> takeWhile is_alpha s = takeWhile is_word s"
proof
  show "list_all is_alpha (takeWhile is_word s) \<Longrightarrow> takeWhile is_alpha s = takeWhile is_word s"
    by (induction s) (auto simp: is_alpha_is_word)
next
  assume "takeWhile is_alpha s = takeWhile is_word s"
  then have "list_all is_alpha (takeWhile is_word s) = list_all is_alpha (takeWhile is_alpha s)"
    by simp
  also have "\<dots>" by (simp add: list_all_iff) (meson set_takeWhileD)
  finally show "list_all is_alpha (takeWhile is_word s)" .
qed

lemma nth_takeWhile_holds: "k < length (takeWhile P s) \<Longrightarrow> P (s ! k)"
  by (metis nth_mem set_takeWhileD takeWhile_nth)

lemma match_here_word_start:
  assumes "is_word c"
  shows "match_here False (c # cs) =
     (if 4 \<le> length (takeWhile is_word (c # cs))
         \<and> list_all is_alpha (takeWhile is_word (c # cs))
      then Some (length (takeWhile is_word (c # cs))) else None)"
proof -
  define s where "s = c # cs"
  define n where "n = length (takeWhile is_alpha s)"
  let ?P = "\<lambda>k. boundary (is_word (s ! (k - 1))) (drop k s)"
  have n_le: "n \<le> length s"
    unfolding n_def by (rule length_takeWhile_le)
  have bnd: "boundary False s"
    using assms by (simp add: s_def boundary_def)
  have below: "\<not> ?P k" if "4 \<le> k" "k < n" for k
  proof -
    have "is_alpha (s ! (k - 1))" "is_alpha (s ! k)"
      using that nth_takeWhile_holds [of _ is_alpha s] by (simp_all add: n_def)
    moreover have "drop k s = s ! k # drop (Suc k) s"
      using that n_le by (simp add: Cons_nth_drop_Suc)
    ultimately show ?thesis
      by (simp add: boundary_def is_alpha_is_word)
  qed
  have at_n: "?P n \<longleftrightarrow> takeWhile is_alpha s = takeWhile is_word s" if "4 \<le> n"
  proof -
    have "is_alpha (s ! (n - 1))"
      using that nth_takeWhile_holds [of "n - 1" is_alpha s] by (simp add: n_def)
    moreover have "drop n s = dropWhile is_alpha s"
      by (simp add: n_def dropWhile_eq_drop)
    ultimately have "?P n \<longleftrightarrow>
        (case dropWhile is_alpha s of [] \<Rightarrow> True | d # _ \<Rightarrow> \<not> is_word d)"
      by (simp add: boundary_def is_alpha_is_word del: dropWhile_eq_Nil_conv
            split: list.splits)
    then show ?thesis
      unfolding takeWhile_alpha_word .
  qed
  have m: "match_here False s = find ?P (rev [4..<Suc n])"
    using bnd by (simp add: match_here_def n_def)
  have "match_here False s =
     (if 4 \<le> length (takeWhile is_word s) \<and> list_all is_alpha (takeWhile is_word s)
      then Some (length (takeWhile is_word s)) else None)"
  proof (cases "4 \<le> n")
    case False
    then have "match_here False s = None"
      using m by simp
    moreover have "takeWhile is_alpha s \<noteq> takeWhile is_word s
                   \<or> \<not> 4 \<le> length (takeWhile is_word s)"
      using False by (auto simp: n_def)
    ultimately show ?thesis
      by (auto simp: all_alpha_word)
  next
    case True
    then have r: "rev [4..<Suc n] = n # rev [4..<n]"
      by simp
    show ?thesis
    proof (cases "takeWhile is_alpha s = takeWhile is_word s")
      case eq: True
      then have "?P n" using at_n [OF True] by simp
      then have "match_here False s = Some n"
        using m r by simp
      moreover have "length (takeWhile is_word s) = n"
        using eq by (simp add: n_def)
      ultimately show ?thesis
        using True eq by (simp add: all_alpha_word)
    next
      case neq: False
      then have "\<not> ?P n" using at_n [OF True] by simp
      moreover have "find ?P (rev [4..<n]) = None"
        using below by (auto simp: find_None_iff)
      ultimately have "match_here False s = None"
        using m r by simp
      then show ?thesis
        using neq by (simp add: all_alpha_word)
    qed
  qed
  then show ?thesis
    unfolding s_def .
qed

lemma findall_from_word_start:
  assumes "is_word c"
  shows "findall_from False (c # cs) =
     (if 4 \<le> length (takeWhile is_word (c # cs))
         \<and> list_all is_alpha (takeWhile is_word (c # cs))
      then [takeWhile is_word (c # cs)] else [])
     @ findall_from False (dropWhile is_word (c # cs))"
proof (cases "4 \<le> length (takeWhile is_word (c # cs))
              \<and> list_all is_alpha (takeWhile is_word (c # cs))")
  case True
  let ?s = "c # cs"
  let ?n = "length (takeWhile is_word ?s)"
  have m: "match_here False ?s = Some ?n"
    using True match_here_word_start [OF assms, of cs] by simp
  have "?n - 1 < ?n"
    using True by linarith
  then have "is_word (?s ! (?n - 1))"
    by (rule nth_takeWhile_holds)
  moreover have "take ?n ?s = takeWhile is_word ?s" "drop ?n ?s = dropWhile is_word ?s"
    by (simp_all add: takeWhile_eq_take [symmetric] dropWhile_eq_drop [symmetric]
        del: takeWhile.simps dropWhile.simps)
  ultimately have "findall_from False ?s =
      takeWhile is_word ?s # findall_from True (dropWhile is_word ?s)"
    using m by (simp add: findall_from.simps [of False ?s] del: takeWhile.simps dropWhile.simps)
  then show ?thesis
    using True by (simp add: findall_from_inside del: takeWhile.simps dropWhile.simps)
next
  case False
  then have "match_here False (c # cs) = None"
    using match_here_word_start [OF assms, of cs] by simp
  then have "findall_from False (c # cs) = findall_from True cs"
    using assms by (simp add: findall_from.simps [of False "c # cs"])
  then show ?thesis
    using False assms by (simp add: findall_from_inside)
qed

lemma findall_from_word_tokens: "findall_from False s = word_tokens s"
proof (induction s rule: length_induct)
  case (1 s)
  show ?case
  proof (cases s)
    case Nil
    then show ?thesis
      by (simp add: findall_from.simps [of _ "[]"] match_here_def boundary_def word_tokens_def)
  next
    case (Cons c cs)
    show ?thesis
    proof (cases "is_word c")
      case False
      then have "\<not> is_alpha c" using is_alpha_is_word by blast
      then have "match_here False (c # cs) = None"
        by (simp add: match_here_def)
      then have "findall_from False (c # cs) = findall_from False cs"
        using False by (simp add: findall_from.simps [of False "c # cs"])
      moreover have "word_tokens (c # cs) = word_tokens cs"
        using False by (simp add: word_tokens_def)
      ultimately show ?thesis
        using 1 Cons by simp
    next
      case True
      let ?rest = "dropWhile is_word (c # cs)"
      have "length ?rest < length s"
        using True Cons by (simp add: length_dropWhile_le le_imp_less_Suc)
      then have ih: "findall_from False ?rest = word_tokens ?rest"
        using 1 by blast
      have "runs is_word [] (c # cs) =
              takeWhile is_word (c # cs) # runs is_word [] ?rest"
        using True runs_split [of is_word "[]" "c # cs"] by simp
      then have "word_tokens (c # cs) =
          (if 4 \<le> length (takeWhile is_word (c # cs))
              \<and> list_all is_alpha (takeWhile is_word (c # cs))
           then [takeWhile is_word (c # cs)] else [])
          @ word_tokens ?rest"
        by (simp add: word_tokens_def del: takeWhile.simps dropWhile.simps)
      then show ?thesis
        using findall_from_word_start [OF True, of cs] ih Cons by simp
    qed
  qed
qed

lemma findall_words_latin1:
  "findall_words (py_lower (''Jalape'' @ [CHR 0xD1] @ ''o Recipes'')) = [''recipes'']"
  by code_simp

lemma findall_words_word_tokens: "findall_words text = word_tokens text"
  unfolding findall_words_def by (rule findall_from_word_tokens)

text \<open>
  C8, as the specification words it, does not hold: the tokens of the code are not the
  alphabetic runs of the text. In \<open>python3 tips python3 tools\<close> the run \<open>python\<close>
  has six letters and occurs twice, but a digit follows it, so \<open>\b\<close> fails behind it and
  the code does not count it.
\<close>

theorem extract_themes_not_alpha_runs:
  "extract_themes themes_example = [(''tips'', 1), (''tools'', 1)]
   \<and> extractThemes_spec themes_example = [(''python'', 2), (''tips'', 1), (''tools'', 1)]
   \<and> extract_themes themes_example \<noteq> extractThemes_spec themes_example"
  by code_simp

text \<open>
  C8, amended: for every SourceData value, \<open>extract_themes\<close> lowercases the titles and
  snippets joined by spaces, takes as tokens the maximal runs of word characters that have
  at least four characters, all of them letters of \<open>[a-zA-Z]\<close>, removes the stop words,
  counts the terms in first-encountered order and returns the top 20 by descending
  frequency, ties in first-encountered order: at most 20 terms, no term twice, the counts
  descending.
\<close>

theorem extract_themes_top_terms:
  "extract_themes d = extractThemes_words d
   \<and> length (extract_themes d) \<le> 20
   \<and> sorted (map (\<lambda>kc. - int (snd kc)) (extract_themes d))
   \<and> distinct (map fst (extract_themes d))"
proof -
  let ?ws = "filter (\<lambda>w. w \<notin> set stop_words) (word_tokens (py_lower (all_text d)))"
  have eq: "extract_themes d = top_terms 20 ?ws"
    by (simp add: extract_themes_def most_common_def top_terms_def Counter_term_frequencies
          findall_words_word_tokens)
  have len: "length (top_terms 20 ?ws) \<le> 20"
    by (simp add: top_terms_def)
  have srt: "sorted (map (\<lambda>kc. - int (snd kc)) (top_terms 20 ?ws))"
    unfolding top_terms_def take_map [symmetric]
    by (rule sorted_wrt_take) (rule sorted_sort_key)
  have "distinct (map fst (term_frequencies ?ws))"
    by (simp add: term_frequencies_def comp_def distinct_first_occurrences)
  then have "distinct (map fst (sort_key (\<lambda>kc. - int (snd kc)) (term_frequencies ?ws)))"
    by (simp add: distinct_map)
  then have dst: "distinct (map fst (top_terms 20 ?ws))"
    unfolding top_terms_def take_map [symmetric] by (rule distinct_take)
  show ?thesis
    using eq len srt dst by (simp add: extractThemes_words_def)
qed

end
